theory Spec2Isabelle
  imports Complex_Main "HOL-Library.Word"
begin

section \<open>The web application's stores (TypeScript)\<close>

text \<open>
  JavaScript strings are sequences of UTF-16 code units: \<open>length\<close>, \<open>slice\<close> and
  \<open>===\<close> all work on code units, so a string is modelled as a list of 16-bit words.
\<close>

type_synonym js_string = "16 word list"

subsection \<open>Theme store and the Layout's cycleTheme\<close>

text \<open>\<open>type Theme = 'light' | 'dark' | 'system'\<close> (stores/themeStore).\<close>

datatype Theme = light | dark | system

record ThemeState =
  theme :: Theme

text \<open>\<open>setTheme: (theme) => set({ theme })\<close>\<close>

definition setTheme :: "Theme \<Rightarrow> ThemeState \<Rightarrow> ThemeState" where
  "setTheme t s = s\<lparr>theme := t\<rparr>"

text \<open>\<open>Array.prototype.indexOf\<close>: the first index holding the element, \<open>-1\<close> when absent.\<close>

fun indexOf :: "'a list \<Rightarrow> 'a \<Rightarrow> int" where
  "indexOf [] x = - 1"
| "indexOf (y # ys) x =
     (if y = x then 0
      else (let r = indexOf ys x in if r = - 1 then - 1 else r + 1))"

text \<open>JavaScript's \<open>%\<close>: the remainder takes the sign of the dividend.\<close>

definition js_rem :: "int \<Rightarrow> int \<Rightarrow> int" where
  "js_rem a b = sgn a * (\<bar>a\<bar> mod \<bar>b\<bar>)"

text \<open>
  Layout.tsx, \<open>cycleTheme\<close>. The component is rendered again after every change of the
  store, so each click reads the store's current \<open>theme\<close>.
  \<^verbatim>\<open>
  const themes = ['light', 'dark', 'system']
  const currentIndex = themes.indexOf(theme)
  const nextIndex = (currentIndex + 1) % themes.length
  setTheme(themes[nextIndex])
  \<close>
\<close>

definition themes :: "Theme list" where
  "themes = [light, dark, system]"

definition nextIndex :: "Theme \<Rightarrow> int" where
  "nextIndex t = js_rem (indexOf themes t + 1) (int (length themes))"

definition cycleTheme :: "ThemeState \<Rightarrow> ThemeState" where
  "cycleTheme s = setTheme (themes ! nat (nextIndex (theme s))) s"

subsection \<open>Chat store\<close>

datatype Role = user | assistant

text \<open>
  The numeric fields \<open>thinkingTime\<close> and \<open>daydreamTime\<close> are optional and only carried
  along; their number type is left as the parameter \<open>'n\<close>.
\<close>

record 'n Message =
  msg_id :: js_string
  content :: js_string
  role :: Role
  timestamp :: js_string
  thinkingTime :: "'n option"
  daydreamTime :: "'n option"

text \<open>\<open>Omit<Message, 'id' | 'timestamp'>\<close>, the argument of \<open>addMessage\<close>.\<close>

record 'n MessageInput =
  in_content :: js_string
  in_role :: Role
  in_thinkingTime :: "'n option"
  in_daydreamTime :: "'n option"

record 'n Conversation =
  conv_id :: js_string
  title :: js_string
  messages :: "'n Message list"
  createdAt :: js_string
  updatedAt :: js_string

record 'n ChatState =
  conversations :: "'n Conversation list"
  currentConversationId :: "js_string option"
  isLoading :: bool
  error :: "js_string option"

text \<open>
  What the browser supplies to one call of \<open>addMessage\<close>: the result of
  \<open>crypto.randomUUID()\<close> and the successive results of \<open>new Date().toISOString()\<close>
  (reading number 0 is the first one taken).
\<close>

record Browser =
  randomUUID :: js_string
  toISOString :: "nat \<Rightarrow> js_string"

text \<open>The string literal \<open>'...'\<close>.\<close>

definition dots :: js_string where
  "dots = [0x2E, 0x2E, 0x2E]"

text \<open>
  \<^verbatim>\<open>
  const newMessage = { ...message, id: crypto.randomUUID(),
                       timestamp: new Date().toISOString() }
  \<close>
\<close>

definition newMessage :: "Browser \<Rightarrow> 'n MessageInput \<Rightarrow> 'n Message" where
  "newMessage b m =
     \<lparr>msg_id = randomUUID b, content = in_content m, role = in_role m,
      timestamp = toISOString b 0,
      thinkingTime = in_thinkingTime m, daydreamTime = in_daydreamTime m\<rparr>"

text \<open>
  The callback of \<open>state.conversations.map\<close>, applied from left to right. Every matching
  conversation takes its own clock reading for \<open>updatedAt\<close>; \<open>k\<close> is the number of the
  next reading.
  \<^verbatim>\<open>
  conv.id === conversationId
    ? { ...conv,
        messages: [...conv.messages, newMessage],
        updatedAt: new Date().toISOString(),
        title: conv.messages.length === 0
                 ? message.content.slice(0, 50) + '...' : conv.title }
    : conv
  \<close>
\<close>

fun addMessage_map ::
  "js_string \<Rightarrow> 'n Message \<Rightarrow> 'n MessageInput \<Rightarrow> (nat \<Rightarrow> js_string) \<Rightarrow> nat \<Rightarrow>
   'n Conversation list \<Rightarrow> 'n Conversation list" where
  "addMessage_map cid nm m clock k [] = []"
| "addMessage_map cid nm m clock k (conv # cs) =
     (if conv_id conv = cid
      then conv\<lparr>messages := messages conv @ [nm],
                updatedAt := clock k,
                title := (if length (messages conv) = 0
                          then take 50 (in_content m) @ dots else title conv)\<rparr>
           # addMessage_map cid nm m clock (Suc k) cs
      else conv # addMessage_map cid nm m clock k cs)"

definition addMessage ::
  "Browser \<Rightarrow> js_string \<Rightarrow> 'n MessageInput \<Rightarrow> 'n ChatState \<Rightarrow> 'n ChatState" where
  "addMessage b conversationId message state =
     state\<lparr>conversations :=
       addMessage_map conversationId (newMessage b message) message (toISOString b) 1
         (conversations state)\<rparr>"

text \<open>
  The number of conversations before position \<open>i\<close> that have the id \<open>cid\<close>: so many
  clock readings for \<open>updatedAt\<close> were taken before the conversation at \<open>i\<close> is mapped.
\<close>

definition matches_before :: "js_string \<Rightarrow> 'n Conversation list \<Rightarrow> nat \<Rightarrow> nat" where
  "matches_before cid cs i = length (filter (\<lambda>c. conv_id c = cid) (take i cs))"

text \<open>
  \<open>newConversations[0]?.id || null\<close>: \<open>undefined\<close> for an empty array, and \<open>||\<close>
  replaces every falsy left operand, the empty string included, by \<open>null\<close>.
\<close>

definition first_id_or_null :: "'n Conversation list \<Rightarrow> js_string option" where
  "first_id_or_null cs =
     (case cs of [] \<Rightarrow> None
      | c # _ \<Rightarrow> (if conv_id c = [] then None else Some (conv_id c)))"

text \<open>
  \<^verbatim>\<open>
  const newConversations = state.conversations.filter((conv) => conv.id !== conversationId)
  const newCurrentId = state.currentConversationId === conversationId
    ? (newConversations[0]?.id || null)
    : state.currentConversationId
  return { conversations: newConversations, currentConversationId: newCurrentId }
  \<close>
\<close>

definition deleteConversation :: "js_string \<Rightarrow> 'n ChatState \<Rightarrow> 'n ChatState" where
  "deleteConversation conversationId state =
     (let newConversations = filter (\<lambda>conv. conv_id conv \<noteq> conversationId) (conversations state);
          newCurrentId = (if currentConversationId state = Some conversationId
                          then first_id_or_null newConversations
                          else currentConversationId state)
      in state\<lparr>conversations := newConversations, currentConversationId := newCurrentId\<rparr>)"

subsection \<open>The other actions of the chat store\<close>

text \<open>The initial state of the store.\<close>

definition initial_chat :: "'n ChatState" where
  "initial_chat =
     \<lparr>conversations = [], currentConversationId = None, isLoading = False, error = None\<rparr>"

text \<open>The string literal \<open>'New Conversation'\<close>, the default of the parameter \<open>title\<close>.\<close>

definition default_title :: js_string where
  "default_title =
     [0x4E, 0x65, 0x77, 0x20, 0x43, 0x6F, 0x6E, 0x76, 0x65, 0x72, 0x73, 0x61, 0x74, 0x69, 0x6F, 0x6E]"

text \<open>
  \<^verbatim>\<open>
  createConversation: (title = 'New Conversation') => {
    const id = crypto.randomUUID()
    const now = new Date().toISOString()
    const conversation = { id, title, messages: [], createdAt: now, updatedAt: now }
    set((state) => ({
      conversations: [conversation, ...state.conversations],
      currentConversationId: id,
    }))
    return id
  }
  \<close>
  The result is the returned id with the state after the call.
\<close>

definition createConversation ::
  "Browser \<Rightarrow> js_string option \<Rightarrow> 'n ChatState \<Rightarrow> js_string \<times> 'n ChatState" where
  "createConversation b title_arg state =
     (let id = randomUUID b;
          now = toISOString b 0;
          conversation = \<lparr>conv_id = id,
                          title = (case title_arg of None \<Rightarrow> default_title | Some t \<Rightarrow> t),
                          messages = [], createdAt = now, updatedAt = now\<rparr>
      in (id, state\<lparr>conversations := conversation # conversations state,
                     currentConversationId := Some id\<rparr>))"

text \<open>\<open>setCurrentConversation: (conversationId) => set({ currentConversationId: conversationId })\<close>\<close>

definition setCurrentConversation :: "js_string \<Rightarrow> 'n ChatState \<Rightarrow> 'n ChatState" where
  "setCurrentConversation conversationId state =
     state\<lparr>currentConversationId := Some conversationId\<rparr>"

text \<open>\<open>clearConversations: () => set({ conversations: [], currentConversationId: null })\<close>\<close>

definition clearConversations :: "'n ChatState \<Rightarrow> 'n ChatState" where
  "clearConversations state = state\<lparr>conversations := [], currentConversationId := None\<rparr>"

text \<open>\<open>setLoading: (loading) => set({ isLoading: loading })\<close>\<close>

definition setLoading :: "bool \<Rightarrow> 'n ChatState \<Rightarrow> 'n ChatState" where
  "setLoading loading state = state\<lparr>isLoading := loading\<rparr>"

text \<open>\<open>setError: (error) => set({ error })\<close>\<close>

definition setError :: "js_string option \<Rightarrow> 'n ChatState \<Rightarrow> 'n ChatState" where
  "setError e state = state\<lparr>error := e\<rparr>"

text \<open>
  The actions that change the store, each with its arguments and with what the browser
  supplies to it, and the states they lead to from the initial one.
\<close>

datatype 'n Action =
  CreateConversation Browser "js_string option"
| AddMessage Browser js_string "'n MessageInput"
| SetCurrentConversation js_string
| DeleteConversation js_string
| ClearConversations
| SetLoading bool
| SetError "js_string option"

fun act :: "'n Action \<Rightarrow> 'n ChatState \<Rightarrow> 'n ChatState" where
  "act (CreateConversation b t) state = snd (createConversation b t state)"
| "act (AddMessage b cid m) state = addMessage b cid m state"
| "act (SetCurrentConversation cid) state = setCurrentConversation cid state"
| "act (DeleteConversation cid) state = deleteConversation cid state"
| "act ClearConversations state = clearConversations state"
| "act (SetLoading l) state = setLoading l state"
| "act (SetError e) state = setError e state"

definition run_actions :: "'n Action list \<Rightarrow> 'n ChatState" where
  "run_actions as = foldl (\<lambda>state a. act a state) initial_chat as"

text \<open>
  \<open>crypto.randomUUID()\<close> returns a string of 36 characters, never the empty string.
\<close>

fun uuid_given :: "'n Action \<Rightarrow> bool" where
  "uuid_given (CreateConversation b t) = (randomUUID b \<noteq> [])"
| "uuid_given a = True"

section \<open>The cognitive-mode core\<close>

text \<open>
  The Python package of the core (\<open>src/dmn\<close>: driver, curator, intrusive thoughts) is
  not among the sources at hand. The definitions of this section are therefore modelled
  from the specification, each one marked so; the policies the specification leaves
  configurable are parameters.
\<close>

subsection \<open>Data model\<close>

text \<open>Modelled from the spec: the enumeration CognitiveMode of the missing driver.\<close>

datatype CognitiveMode = ACTIVE | PARTIAL_WAKE | DEFAULT

text \<open>Modelled from the spec: the seven source types of an IntrusiveThought.\<close>

datatype SourceType =
  random | worry | creative | philosophical | absurd | memory_derived | sensory


text \<open>
  Modelled from the spec: the MemoryEntry of the missing memory store. Timestamps are
  natural numbers, \<open>content\<close> is a byte string, \<open>importance\<close> (a float in the spec) is
  a real number.
\<close>

record MemoryEntry =
  entry_id :: nat
  entry_content :: string
  indexKey :: string
  entry_createdAt :: nat
  lastAccessedAt :: nat
  accessCount :: nat
  importance :: real
  tags :: "string set"

text \<open>Modelled from the spec: the error taxonomy of the missing core.\<close>

datatype core_error =
  ModeViolationError | GenerationTimeoutError | GenerationFailure | CapacityError

subsection \<open>Permission table\<close>

text \<open>Modelled from the spec: the four columns of the missing driver's permission table.\<close>

datatype Capability = ChainOfThought | ScratchpadWrite | MemoryWrite | MemoryRead

text \<open>
  Modelled from the spec: the permission table of the missing driver.
  \<^verbatim>\<open>
  | Mode         | Chain-of-thought | Scratchpad | Memory writes | Memory reads |
  | ACTIVE       | ON               | enabled    | disabled      | enabled      |
  | PARTIAL_WAKE | ON               | disabled   | disabled      | enabled      |
  | DEFAULT      | OFF              | disabled   | enabled       | disabled     |
  \<close>
\<close>

fun permitted :: "CognitiveMode \<Rightarrow> Capability \<Rightarrow> bool" where
  "permitted ACTIVE ChainOfThought = True"
| "permitted ACTIVE ScratchpadWrite = True"
| "permitted ACTIVE MemoryWrite = False"
| "permitted ACTIVE MemoryRead = True"
| "permitted PARTIAL_WAKE ChainOfThought = True"
| "permitted PARTIAL_WAKE ScratchpadWrite = False"
| "permitted PARTIAL_WAKE MemoryWrite = False"
| "permitted PARTIAL_WAKE MemoryRead = True"
| "permitted DEFAULT ChainOfThought = False"
| "permitted DEFAULT ScratchpadWrite = False"
| "permitted DEFAULT MemoryWrite = True"
| "permitted DEFAULT MemoryRead = False"

subsection \<open>Memory Store\<close>

text \<open>
  Modelled from the spec: the missing persistence collaborator with its three primitives
  \<open>put(entry)\<close>, \<open>get(id)\<close> and \<open>query(filter)\<close>. The store is the list of its entries
  in insertion order; \<open>put\<close> overwrites the entry that has the same id and appends a new
  one otherwise.
\<close>

type_synonym MemoryStore = "MemoryEntry list"

fun put :: "MemoryEntry \<Rightarrow> MemoryStore \<Rightarrow> MemoryStore" where
  "put e [] = [e]"
| "put e (x # xs) = (if entry_id x = entry_id e then e # xs else x # put e xs)"

text \<open>Modelled from the spec: \<open>get(id)\<close> of the missing store, the entry with that id.\<close>

definition get :: "nat \<Rightarrow> MemoryStore \<Rightarrow> MemoryEntry option" where
  "get i s = find (\<lambda>e. entry_id e = i) s"

text \<open>
  Modelled from the spec: \<open>query(filter)\<close> of the missing store, the entries the filter
  accepts.
\<close>

definition query :: "(MemoryEntry \<Rightarrow> bool) \<Rightarrow> MemoryStore \<Rightarrow> MemoryEntry list" where
  "query f s = filter f s"

subsection \<open>Memory Curator\<close>

text \<open>
  Modelled from the spec: the policies of the missing curator that the specification
  leaves configurable: the similarity of a query and an entry (over embeddings), the
  random weight of the creative-random strategy (from the injectable random source), the
  importance an entry gets on retrieval, and the merge of consolidation, which
  deduplicates the candidates, computes importances and tag links and yields the entries
  to persist.
\<close>

record CuratorPolicy =
  similarity :: "string \<Rightarrow> MemoryEntry \<Rightarrow> real"
  randomWeight :: "MemoryEntry \<Rightarrow> real"
  reinforce :: "MemoryEntry \<Rightarrow> real"
  merge :: "nat \<Rightarrow> MemoryStore \<Rightarrow> string list \<Rightarrow> MemoryEntry list"

text \<open>
  Modelled from the spec: the persisting step of the missing curator, one \<open>put\<close> per
  entry, in order.
\<close>

definition persist :: "MemoryEntry list \<Rightarrow> MemoryStore \<Rightarrow> MemoryStore" where
  "persist es s = foldl (\<lambda>acc e. put e acc) s es"

text \<open>
  Modelled from the spec: \<open>consolidate(candidates)\<close> of the missing curator, called at
  time \<open>now\<close> while the driver is in mode \<open>m\<close>. It is only callable while the mode is
  DEFAULT and fails with a ModeViolationError otherwise; in DEFAULT the merge policy
  yields the entries, which are persisted and returned.
\<close>

definition consolidate ::
  "CuratorPolicy \<Rightarrow> CognitiveMode \<Rightarrow> nat \<Rightarrow> string list \<Rightarrow> MemoryStore \<Rightarrow>
   (core_error + MemoryEntry list) \<times> MemoryStore" where
  "consolidate p m now candidates s =
     (if m \<noteq> DEFAULT then (Inl ModeViolationError, s)
      else (let entries = merge p now s candidates
            in (Inr entries, persist entries s)))"

subsection \<open>Driver\<close>









section \<open>Concrete inputs\<close>

text \<open>
  Small inputs on which the theorems below are evaluated. In the chat states the ids
  \<open>[0x61]\<close>, \<open>[0x62]\<close> and \<open>[0x63]\<close> are the strings \<open>'a'\<close>, \<open>'b'\<close> and \<open>'c'\<close>.
\<close>

definition example_browser :: Browser where
  "example_browser = \<lparr>randomUUID = [0x75, 0x31], toISOString = (\<lambda>n. [0x74, of_nat n])\<rparr>"

definition example_input :: "unit MessageInput" where
  "example_input = \<lparr>in_content = [0x68, 0x69], in_role = user,
     in_thinkingTime = None, in_daydreamTime = None\<rparr>"

definition example_chat :: "unit ChatState" where
  "example_chat =
     \<lparr>conversations =
        [\<lparr>conv_id = [0x61], title = [0x4E], messages = [], createdAt = [0x30], updatedAt = [0x30]\<rparr>,
         \<lparr>conv_id = [0x62], title = [0x4F], messages = [newMessage example_browser example_input],
           createdAt = [0x31], updatedAt = [0x31]\<rparr>],
      currentConversationId = Some [0x61], isLoading = False, error = None\<rparr>"

definition example_policy :: CuratorPolicy where
  "example_policy =
     \<lparr>similarity = (\<lambda>q e. 0), randomWeight = (\<lambda>e. 1), reinforce = (\<lambda>e. importance e + 1),
      merge = (\<lambda>now s cs. map (\<lambda>c. \<lparr>entry_id = 10 + length s, entry_content = c, indexKey = c,
                 entry_createdAt = now, lastAccessedAt = now, accessCount = 0, importance = 0,
                 tags = {}\<rparr>) (take 1 cs))\<rparr>"

definition example_store :: MemoryStore where
  "example_store =
     [\<lparr>entry_id = 1, entry_content = ''alpha'', indexKey = ''a'', entry_createdAt = 0,
       lastAccessedAt = 0, accessCount = 0, importance = 2, tags = {}\<rparr>,
      \<lparr>entry_id = 2, entry_content = ''beta'', indexKey = ''b'', entry_createdAt = 1,
       lastAccessedAt = 1, accessCount = 0, importance = 5, tags = {''x''}\<rparr>]"


text \<open>
  A browser whose \<open>crypto.randomUUID()\<close> gives
  \<open>'00000000-0000-4000-8000-000000000000'\<close>, and the state the store is in after a
  conversation was created and \<open>setCurrentConversation('a')\<close> was called: the current id
  is \<open>'a'\<close>, and the one conversation has the UUID as its id.
\<close>

definition example_uuid :: js_string where
  "example_uuid =
     [0x30, 0x30, 0x30, 0x30, 0x30, 0x30, 0x30, 0x30, 0x2D, 0x30, 0x30, 0x30, 0x30, 0x2D,
      0x34, 0x30, 0x30, 0x30, 0x2D, 0x38, 0x30, 0x30, 0x30, 0x2D,
      0x30, 0x30, 0x30, 0x30, 0x30, 0x30, 0x30, 0x30, 0x30, 0x30, 0x30, 0x30]"

definition uuid_browser :: Browser where
  "uuid_browser = \<lparr>randomUUID = example_uuid, toISOString = (\<lambda>n. [0x74, of_nat n])\<rparr>"

definition other_current_chat :: "unit ChatState" where
  "other_current_chat =
     run_actions [CreateConversation uuid_browser None, SetCurrentConversation [0x61]]"


section \<open>Properties of the web application's stores\<close>

subsection \<open>cycleTheme\<close>

text \<open>The array read \<open>themes[nextIndex]\<close> is always in range.\<close>

lemma nextIndex_in_range: "0 \<le> nextIndex t \<and> nextIndex t < int (length themes)"
  by (cases t) (simp_all add: nextIndex_def themes_def js_rem_def)

text \<open>
  Claim C8. For each of the three themes, one \<open>cycleTheme\<close> maps \<open>light\<close> to \<open>dark\<close>,
  \<open>dark\<close> to \<open>system\<close> and \<open>system\<close> to \<open>light\<close>; three applications lead the theme
  store back to the state it started from.
\<close>

theorem cycleTheme_three_cycle:
  "theme (cycleTheme s) = (case theme s of light \<Rightarrow> dark | dark \<Rightarrow> system | system \<Rightarrow> light)
   \<and> cycleTheme (cycleTheme (cycleTheme s)) = s"
  by (cases s; cases "theme s")
     (simp_all add: cycleTheme_def setTheme_def nextIndex_def themes_def js_rem_def)

theorem cycleTheme_three_cycle_witness:
  "theme (cycleTheme \<lparr>theme = system\<rparr>) = light
   \<and> cycleTheme (cycleTheme (cycleTheme \<lparr>theme = system\<rparr>)) = \<lparr>theme = system\<rparr>"
  using cycleTheme_three_cycle [of "\<lparr>theme = system\<rparr>"] by simp

subsection \<open>addMessage\<close>

lemma addMessage_map_length: "length (addMessage_map cid nm m clock k cs) = length cs"
  by (induction cs arbitrary: k) simp_all

lemma addMessage_map_nth:
  "i < length cs \<Longrightarrow>
   addMessage_map cid nm m clock k cs ! i =
     (if conv_id (cs ! i) = cid
      then (cs ! i)\<lparr>messages := messages (cs ! i) @ [nm],
                     updatedAt := clock (k + matches_before cid cs i),
                     title := (if messages (cs ! i) = [] then take 50 (in_content m) @ dots
                               else title (cs ! i))\<rparr>
      else cs ! i)"
proof (induction cs arbitrary: k i)
  case Nil
  then show ?case by simp
next
  case (Cons c cs)
  show ?case
  proof (cases i)
    case 0
    then show ?thesis by (simp add: matches_before_def)
  next
    case (Suc j)
    with Cons.prems have "j < length cs" by simp
    from Cons.IH[OF this] Suc show ?thesis by (simp add: matches_before_def)
  qed
qed

lemma addMessage_map_absent:
  "cid \<notin> conv_id ` set cs \<Longrightarrow> addMessage_map cid nm m clock k cs = cs"
  by (induction cs arbitrary: k) auto

text \<open>
  Claim C9. \<open>addMessage\<close> keeps the number and the order of the conversations and the
  other fields of the store. A conversation whose id is \<open>cid\<close> gets exactly the new
  message appended (its id is the generated UUID, its timestamp the first clock reading,
  content and role are the argument's), its \<open>updatedAt\<close> is a later clock reading, and its
  title becomes the first 50 code units of the content followed by \<open>'...'\<close> exactly
  when it had no message before, and stays as it was otherwise. A conversation with
  another id is unchanged, and when no conversation has the id, the list is unchanged.
\<close>

theorem addMessage_appends_one:
  "length (conversations (addMessage b cid m st)) = length (conversations st) \<and>
   currentConversationId (addMessage b cid m st) = currentConversationId st \<and>
   isLoading (addMessage b cid m st) = isLoading st \<and>
   error (addMessage b cid m st) = error st \<and>
   (\<forall>i < length (conversations st).
      (conv_id (conversations st ! i) = cid \<longrightarrow>
         messages (conversations (addMessage b cid m st) ! i)
           = messages (conversations st ! i) @ [newMessage b m] \<and>
         updatedAt (conversations (addMessage b cid m st) ! i)
           = toISOString b (1 + matches_before cid (conversations st) i) \<and>
         title (conversations (addMessage b cid m st) ! i)
           = (if messages (conversations st ! i) = [] then take 50 (in_content m) @ dots
              else title (conversations st ! i)) \<and>
         conv_id (conversations (addMessage b cid m st) ! i) = cid \<and>
         createdAt (conversations (addMessage b cid m st) ! i) = createdAt (conversations st ! i)) \<and>
      (conv_id (conversations st ! i) \<noteq> cid \<longrightarrow>
         conversations (addMessage b cid m st) ! i = conversations st ! i)) \<and>
   (cid \<notin> conv_id ` set (conversations st) \<longrightarrow>
      conversations (addMessage b cid m st) = conversations st) \<and>
   msg_id (newMessage b m) = randomUUID b \<and> timestamp (newMessage b m) = toISOString b 0 \<and>
   content (newMessage b m) = in_content m \<and> role (newMessage b m) = in_role m"
  by (simp add: addMessage_def addMessage_map_length addMessage_map_nth addMessage_map_absent
      newMessage_def)

theorem addMessage_appends_one_witness:
  "length (conversations example_chat) = 2 \<and>
   conv_id (conversations example_chat ! 0) = [0x61] \<and>
   messages (conversations example_chat ! 0) = [] \<and>
   messages (conversations (addMessage example_browser [0x61] example_input example_chat) ! 0)
     = [newMessage example_browser example_input] \<and>
   title (conversations (addMessage example_browser [0x61] example_input example_chat) ! 0)
     = [0x68, 0x69, 0x2E, 0x2E, 0x2E] \<and>
   updatedAt (conversations (addMessage example_browser [0x61] example_input example_chat) ! 0)
     = [0x74, 1] \<and>
   conv_id (conversations example_chat ! 1) \<noteq> [0x61] \<and>
   conversations (addMessage example_browser [0x61] example_input example_chat) ! 1
     = conversations example_chat ! 1 \<and>
   [0x63] \<notin> conv_id ` set (conversations example_chat) \<and>
   conversations (addMessage example_browser [0x63] example_input example_chat)
     = conversations example_chat"
proof -
  have len: "length (conversations example_chat) = 2"
    and c0: "conv_id (conversations example_chat ! 0) = [0x61]"
    and m0: "messages (conversations example_chat ! 0) = []"
    and c1: "conv_id (conversations example_chat ! 1) \<noteq> [0x61]"
    and absent: "[0x63] \<notin> conv_id ` set (conversations example_chat)"
    by (simp_all add: example_chat_def)
  have mb: "matches_before [0x61] (conversations example_chat) 0 = 0"
    by (simp add: matches_before_def)
  have cont: "take 50 (in_content example_input) @ dots = [0x68, 0x69, 0x2E, 0x2E, 0x2E]"
    by (simp add: example_input_def dots_def)
  have clk: "toISOString example_browser (Suc 0) = [0x74, 1]"
    by (simp add: example_browser_def)
  from addMessage_appends_one [of example_browser "[0x61]" example_input example_chat]
    addMessage_appends_one [of example_browser "[0x63]" example_input example_chat]
  show ?thesis
    using len c0 m0 c1 absent mb cont clk by simp
qed

subsection \<open>deleteConversation\<close>

text \<open>
  Every conversation's id was produced by \<open>crypto.randomUUID()\<close>: in the states the
  actions lead to, no conversation has the empty string as its id.
\<close>

lemma addMessage_map_ids: "map conv_id (addMessage_map cid nm m clock k cs) = map conv_id cs"
  by (induction cs arbitrary: k) simp_all

lemma act_keeps_ids_nonempty:
  assumes "uuid_given a" and "[] \<notin> conv_id ` set (conversations state)"
  shows "[] \<notin> conv_id ` set (conversations (act a state))"
proof (cases a)
  case (CreateConversation b t)
  with assms show ?thesis by (auto simp: createConversation_def Let_def)
next
  case (AddMessage b cid m)
  have "conv_id ` set (conversations (addMessage b cid m state))
      = set (map conv_id (conversations (addMessage b cid m state)))" by simp
  also have "\<dots> = set (map conv_id (conversations state))"
    by (simp add: addMessage_def addMessage_map_ids del: set_map)
  finally show ?thesis using assms(2) AddMessage by simp
next
  case (SetCurrentConversation cid)
  with assms show ?thesis by (simp add: setCurrentConversation_def)
next
  case (DeleteConversation cid)
  with assms show ?thesis by (auto simp: deleteConversation_def Let_def)
next
  case ClearConversations
  then show ?thesis by (simp add: clearConversations_def)
next
  case (SetLoading l)
  with assms show ?thesis by (simp add: setLoading_def)
next
  case (SetError e)
  with assms show ?thesis by (simp add: setError_def)
qed

lemma foldl_act_keeps_ids_nonempty:
  "list_all uuid_given as \<Longrightarrow> [] \<notin> conv_id ` set (conversations state) \<Longrightarrow>
   [] \<notin> conv_id ` set (conversations (foldl (\<lambda>state a. act a state) state as))"
  by (induction as arbitrary: state) (simp_all add: act_keeps_ids_nonempty)

lemma run_actions_ids_nonempty:
  "list_all uuid_given as \<Longrightarrow> [] \<notin> conv_id ` set (conversations (run_actions as))"
  unfolding run_actions_def
  by (rule foldl_act_keeps_ids_nonempty) (simp_all add: initial_chat_def)

text \<open>
  Claim C10, as amended. In a state where no conversation has the empty string as its
  id, \<open>deleteConversation\<close> keeps exactly the conversations whose id differs from \<open>cid\<close>,
  in their order and unchanged. When the current id was \<open>cid\<close>, whether or not a
  conversation had that id, the current id becomes the id of the first remaining
  conversation, and \<open>null\<close> when no conversation remains; otherwise the current id is
  unchanged.
\<close>

theorem deleteConversation_reselects_by_id:
  assumes "[] \<notin> conv_id ` set (conversations st)"
  shows "conversations (deleteConversation cid st)
           = filter (\<lambda>c. conv_id c \<noteq> cid) (conversations st) \<and>
         isLoading (deleteConversation cid st) = isLoading st \<and>
         error (deleteConversation cid st) = error st \<and>
         currentConversationId (deleteConversation cid st) =
           (if currentConversationId st = Some cid
            then (case filter (\<lambda>c. conv_id c \<noteq> cid) (conversations st) of
                    [] \<Rightarrow> None
                  | c # _ \<Rightarrow> Some (conv_id c))
            else currentConversationId st)"
proof -
  let ?rest = "filter (\<lambda>c. conv_id c \<noteq> cid) (conversations st)"
  from assms have "[] \<notin> conv_id ` set ?rest" by auto
  then have "first_id_or_null ?rest = (case ?rest of [] \<Rightarrow> None | c # _ \<Rightarrow> Some (conv_id c))"
    by (cases ?rest) (auto simp: first_id_or_null_def)
  then show ?thesis by (simp add: deleteConversation_def Let_def)
qed

theorem deleteConversation_reselects_by_id_witness:
  "[] \<notin> conv_id ` set (conversations example_chat) \<and>
   conversations (deleteConversation [0x61] example_chat) = [conversations example_chat ! 1] \<and>
   currentConversationId (deleteConversation [0x61] example_chat) = Some [0x62] \<and>
   currentConversationId (deleteConversation [0x62] example_chat) = Some [0x61] \<and>
   conversations (deleteConversation [0x61] (deleteConversation [0x62] example_chat)) = [] \<and>
   currentConversationId (deleteConversation [0x61] (deleteConversation [0x62] example_chat))
     = None"
proof -
  have ids: "[] \<notin> conv_id ` set (conversations example_chat)"
    by (simp add: example_chat_def)
  have ids': "[] \<notin> conv_id ` set (conversations (deleteConversation [0x62] example_chat))"
    by (simp add: example_chat_def deleteConversation_def Let_def)
  from deleteConversation_reselects_by_id [OF ids, of "[0x61]"]
    deleteConversation_reselects_by_id [OF ids, of "[0x62]"]
    deleteConversation_reselects_by_id [OF ids', of "[0x61]"]
  show ?thesis using ids by (simp add: example_chat_def)
qed

text \<open>
  The claim as first stated makes the current id change only when the deleted
  conversation was the current one. In \<open>other_current_chat\<close>, reached from the initial
  state by \<open>createConversation()\<close> and \<open>setCurrentConversation('a')\<close>, no conversation has
  the id \<open>'a'\<close>; \<open>deleteConversation('a')\<close> deletes nothing and yet moves the current id
  from \<open>'a'\<close> to the id of the first conversation.
\<close>

theorem deleteConversation_nothing_deleted_counterexample:
  "[0x61] \<notin> conv_id ` set (conversations other_current_chat) \<and>
   conversations (deleteConversation [0x61] other_current_chat)
     = conversations other_current_chat \<and>
   currentConversationId other_current_chat = Some [0x61] \<and>
   currentConversationId (deleteConversation [0x61] other_current_chat) = Some example_uuid \<and>
   currentConversationId (deleteConversation [0x61] other_current_chat)
     \<noteq> currentConversationId other_current_chat"
  by (simp add: other_current_chat_def run_actions_def initial_chat_def createConversation_def
      setCurrentConversation_def deleteConversation_def first_id_or_null_def Let_def
      uuid_browser_def example_uuid_def)

section \<open>Properties of the cognitive-mode core\<close>

subsection \<open>consolidate\<close>

text \<open>
  Claim C1. A call of \<open>consolidate\<close> while the mode is not DEFAULT fails with a
  ModeViolationError, and the memory store after the call is the store before it: every
  \<open>get\<close> and every \<open>query\<close> answers as before, so no entry was created or changed.
\<close>

theorem consolidate_outside_DEFAULT_fails:
  assumes "m \<noteq> DEFAULT"
  shows "fst (consolidate p m now candidates s) = Inl ModeViolationError \<and>
         snd (consolidate p m now candidates s) = s \<and>
         get i (snd (consolidate p m now candidates s)) = get i s \<and>
         query f (snd (consolidate p m now candidates s)) = query f s"
  using assms by (simp add: consolidate_def)

text \<open>
  In DEFAULT, the one mode whose table row enables memory writes, the call succeeds and
  persists what the merge policy yields.
\<close>

lemma memory_write_only_in_DEFAULT: "permitted m MemoryWrite \<longleftrightarrow> m = DEFAULT"
  by (cases m) simp_all

lemma consolidate_in_DEFAULT:
  "consolidate p DEFAULT now candidates s
     = (Inr (merge p now s candidates), persist (merge p now s candidates) s)"
  by (simp add: consolidate_def Let_def)

theorem consolidate_outside_DEFAULT_fails_witness:
  "ACTIVE \<noteq> DEFAULT \<and>
   consolidate example_policy ACTIVE 3 [''gamma''] example_store
     = (Inl ModeViolationError, example_store) \<and>
   PARTIAL_WAKE \<noteq> DEFAULT \<and>
   consolidate example_policy PARTIAL_WAKE 3 [''gamma''] example_store
     = (Inl ModeViolationError, example_store) \<and>
   length (snd (consolidate example_policy DEFAULT 3 [''gamma''] example_store)) = 3"
proof -
  have a: "ACTIVE \<noteq> DEFAULT" and b: "PARTIAL_WAKE \<noteq> DEFAULT" by simp_all
  have c: "length (snd (consolidate example_policy DEFAULT 3 [''gamma''] example_store)) = 3"
    by (simp add: consolidate_in_DEFAULT example_policy_def example_store_def persist_def)
  from consolidate_outside_DEFAULT_fails [OF a, of example_policy 3 "[''gamma'']" example_store]
    consolidate_outside_DEFAULT_fails [OF b, of example_policy 3 "[''gamma'']" example_store]
  show ?thesis using c by (simp add: prod_eq_iff)
qed

subsection \<open>getCurrentContext\<close>






end
